theory Spec2Isabelle
  imports Complex_Main
begin

section \<open>Python values used by the meeting assistant\<close>

text \<open>
  Strings are Python \<open>str\<close> values whose code points lie below 256, one \<open>char\<close> per
  code point (so \<open>CHR 0xF3\<close> is the letter o with acute accent of the Spanish messages).
  Logging, \<open>print\<close> and the \<open>tqdm\<close> progress bars write to the console only and are
  left out. Exceptions that are not subclasses of \<open>Exception\<close> (\<open>KeyboardInterrupt\<close>,
  \<open>SystemExit\<close>) are not modelled.
\<close>

subsection \<open>Exceptions\<close>

datatype exn_class =
    FileNotFoundError
  | ValueError
  | KeyError
  | IndexError
  | ZeroDivisionError
  | OverflowError
  | OpenAIError
  | ffmpeg_Error
  | OtherException

text \<open>An exception is its class together with the text that \<open>str(e)\<close> gives.\<close>

datatype exn = Raise exn_class string

fun str_exn :: "exn \<Rightarrow> string" where
  "str_exn (Raise c msg) = msg"

fun class_of :: "exn \<Rightarrow> exn_class" where
  "class_of (Raise c msg) = c"

subsection \<open>Strings\<close>

text \<open>\<open>sep.join(xs)\<close>.\<close>

fun join :: "string \<Rightarrow> string list \<Rightarrow> string" where
  "join sep [] = []"
| "join sep [x] = x"
| "join sep (x # y # ys) = x @ sep @ join sep (y # ys)"

text \<open>\<open>str(n)\<close> for an integer: decimal digits, with a minus sign when negative.\<close>

fun digits :: "nat \<Rightarrow> string" where
  "digits n =
     (if n < 10 then [''0123456789'' ! n]
      else digits (n div 10) @ [''0123456789'' ! (n mod 10)])"

declare digits.simps [simp del]

definition str_int :: "int \<Rightarrow> string" where
  "str_int i = (if i < 0 then ''-'' @ digits (nat (- i)) else digits (nat i))"

text \<open>\<open>repr\<close> of a string without quotes or backslashes, and of a list of such strings.\<close>

definition repr_str :: "string \<Rightarrow> string" where
  "repr_str s = [CHR 0x27] @ s @ [CHR 0x27]"

definition repr_list :: "string list \<Rightarrow> string" where
  "repr_list xs = ''['' @ join '', '' (map repr_str xs) @ '']''"

text \<open>
  \<open>str.lower()\<close>: on code points below 256 it maps the ASCII capitals and the
  capital letters \<open>0xC0\<close> to \<open>0xDE\<close> (without the multiplication sign \<open>0xD7\<close>) to the
  code point 32 above, and leaves every other character as it is.
\<close>

definition uppercase :: string where
  "uppercase = ''ABCDEFGHIJKLMNOPQRSTUVWXYZ'' @
     [CHR 0xC0, CHR 0xC1, CHR 0xC2, CHR 0xC3, CHR 0xC4, CHR 0xC5, CHR 0xC6, CHR 0xC7,
      CHR 0xC8, CHR 0xC9, CHR 0xCA, CHR 0xCB, CHR 0xCC, CHR 0xCD, CHR 0xCE, CHR 0xCF,
      CHR 0xD0, CHR 0xD1, CHR 0xD2, CHR 0xD3, CHR 0xD4, CHR 0xD5, CHR 0xD6, CHR 0xD8,
      CHR 0xD9, CHR 0xDA, CHR 0xDB, CHR 0xDC, CHR 0xDD, CHR 0xDE]"

definition lowercase :: string where
  "lowercase = ''abcdefghijklmnopqrstuvwxyz'' @
     [CHR 0xE0, CHR 0xE1, CHR 0xE2, CHR 0xE3, CHR 0xE4, CHR 0xE5, CHR 0xE6, CHR 0xE7,
      CHR 0xE8, CHR 0xE9, CHR 0xEA, CHR 0xEB, CHR 0xEC, CHR 0xED, CHR 0xEE, CHR 0xEF,
      CHR 0xF0, CHR 0xF1, CHR 0xF2, CHR 0xF3, CHR 0xF4, CHR 0xF5, CHR 0xF6, CHR 0xF8,
      CHR 0xF9, CHR 0xFA, CHR 0xFB, CHR 0xFC, CHR 0xFD, CHR 0xFE]"

definition lower_char :: "char \<Rightarrow> char" where
  "lower_char c = (case map_of (zip uppercase lowercase) c of Some l \<Rightarrow> l | None \<Rightarrow> c)"

definition lower :: "string \<Rightarrow> string" where
  "lower s = map lower_char s"

subsection \<open>Paths\<close>

text \<open>
  \<open>pathlib.Path\<close> on a POSIX system. The components of a path are the pieces between
  slashes, without the empty ones and the single dots; \<open>name\<close> is the last component
  (empty when there is none); \<open>suffix\<close> starts at the last dot of the name when that dot
  is neither its first nor its last character (the rule of Python up to 3.13), and
  \<open>stem\<close> is the name without it.
\<close>

fun split_sep :: "char \<Rightarrow> string \<Rightarrow> string list" where
  "split_sep sep [] = [[]]"
| "split_sep sep (c # cs) =
     (if c = sep then [] # split_sep sep cs
      else (case split_sep sep cs of
              [] \<Rightarrow> [[c]]
            | r # rs \<Rightarrow> (c # r) # rs))"

definition Path_name :: "string \<Rightarrow> string" where
  "Path_name p =
     (let parts = filter (\<lambda>x. x \<noteq> [] \<and> x \<noteq> ''.'') (split_sep CHR ''/'' p)
      in if parts = [] then [] else last parts)"

text \<open>\<open>s.rfind(c)\<close>: the index of the last occurrence of \<open>c\<close>, or \<open>-1\<close>.\<close>

primrec rfind_from :: "char \<Rightarrow> string \<Rightarrow> nat \<Rightarrow> int" where
  "rfind_from c [] i = - 1"
| "rfind_from c (x # xs) i =
     (let r = rfind_from c xs (Suc i)
      in if 0 \<le> r then r else if x = c then int i else - 1)"

definition rfind :: "string \<Rightarrow> char \<Rightarrow> int" where
  "rfind s c = rfind_from c s 0"

definition Path_suffix :: "string \<Rightarrow> string" where
  "Path_suffix p =
     (let name = Path_name p; i = rfind name CHR ''.''
      in if 0 < i \<and> i < int (length name) - 1 then drop (nat i) name else [])"

definition Path_stem :: "string \<Rightarrow> string" where
  "Path_stem p =
     (let name = Path_name p; i = rfind name CHR ''.''
      in if 0 < i \<and> i < int (length name) - 1 then take (nat i) name else name)"

text \<open>
  \<open>str(directory / name)\<close> for a directory whose last component is a proper name (as
  \<open>OUTPUT_DIR\<close>, which ends in \<open>output\<close>) and a one-component relative \<open>name\<close>.
\<close>

definition path_join :: "string \<Rightarrow> string \<Rightarrow> string" where
  "path_join directory name = directory @ ''/'' @ name"

subsection \<open>Ranges\<close>

text \<open>The values that \<open>range(start, stop, step)\<close> yields; a zero step raises.\<close>

function range_values :: "int \<Rightarrow> int \<Rightarrow> int \<Rightarrow> int list" where
  "range_values start stop step =
     (if (0 < step \<and> start < stop) \<or> (step < 0 \<and> stop < start)
      then start # range_values (start + step) stop step
      else [])"
  by pat_completeness auto
termination
  by (relation "measure (\<lambda>(start, stop, step).
        if 0 < step then nat (stop - start) else nat (start - stop))") auto

declare range_values.simps [simp del]

definition py_range :: "int \<Rightarrow> int \<Rightarrow> int \<Rightarrow> exn + int list" where
  "py_range start stop step =
     (if step = 0 then Inl (Raise ValueError ''range() arg 3 must not be zero'')
      else Inr (range_values start stop step))"

section \<open>The outside world\<close>

text \<open>
  The program talks to the file system, to \<open>ffmpeg\<close>, to \<open>pydub\<close> and to the OpenAI
  services. Every such call is recorded as an event, and the trace of the events so far
  is the state that the functions pass along. What a call answers is given by an
  environment of oracles; each oracle sees the trace before the call, so the same call
  may answer differently at different moments of a run.
\<close>

record chat_request =
  model :: string
  messages :: "(string \<times> string) list"
  max_tokens :: int
  temperature :: real

datatype event =
    EvTranscode string string
  | EvProbe string
  | EvDecode string
  | EvExport string int int
  | EvOpen string
  | EvTranscribe string string "string option"
  | EvChat chat_request

type_synonym trace = "event list"

text \<open>
  A stream of the \<open>ffprobe\<close> answer is a dictionary from field names to strings,
  and the value of \<open>probe['streams']\<close> is a list of streams.
\<close>

type_synonym stream = "(string \<times> string) list"

text \<open>
  \<^item> \<open>fl\<close> rounds a real number to the floating-point number that stands for it: a
    floating-point operation is the exact operation followed by \<open>fl\<close>;
  \<^item> \<open>float_of_string\<close> is \<open>float(s)\<close>, \<open>None\<close> when the string is not a number
    (strings that denote an infinity or a NaN are outside the model);
  \<^item> \<open>set_order\<close> is the order in which this process iterates a set of strings;
  \<^item> \<open>encoding_for_model\<close> is \<open>tiktoken.encoding_for_model\<close>, giving the function that
    \<open>encode\<close> computes;
  \<^item> \<open>transcode\<close> stands for the body of \<open>convert_to_audio\<close> after its checks (the
    \<open>ffmpeg\<close> run, the progress polling and the \<open>moviepy\<close> fallback): \<open>None\<close> when the
    audio file was written, otherwise the exception that leaves the function;
  \<^item> \<open>AudioSegment_from_file\<close> gives \<open>len(audio)\<close>, the length in milliseconds;
  \<^item> \<open>export\<close> is \<open>segment.export(path, format="mp3")\<close>;
  \<^item> \<open>open_rb\<close> is \<open>open(path, "rb")\<close>;
  \<^item> \<open>Audio_transcribe\<close> gives the \<open>text\<close> field of the response, \<open>None\<close> when the
    response has no such field;
  \<^item> \<open>ChatCompletion_create\<close> gives the response, of a type left open.
\<close>

record 'r env =
  fl :: "real \<Rightarrow> real"
  float_of_string :: "string \<Rightarrow> real option"
  set_order :: "string set \<Rightarrow> string list"
  encoding_for_model :: "string \<Rightarrow> exn + (string \<Rightarrow> exn + nat list)"
  os_path_exists :: "trace \<Rightarrow> string \<Rightarrow> bool"
  transcode :: "trace \<Rightarrow> string \<Rightarrow> string \<Rightarrow> exn option"
  ffmpeg_probe :: "trace \<Rightarrow> string \<Rightarrow> exn + stream list"
  AudioSegment_from_file :: "trace \<Rightarrow> string \<Rightarrow> exn + nat"
  export :: "trace \<Rightarrow> string \<Rightarrow> exn option"
  open_rb :: "trace \<Rightarrow> string \<Rightarrow> exn option"
  Audio_transcribe :: "trace \<Rightarrow> string \<Rightarrow> string option \<Rightarrow> exn + string option"
  ChatCompletion_create :: "trace \<Rightarrow> chat_request \<Rightarrow> exn + 'r"

text \<open>
  Floating-point arithmetic. \<open>int_truediv\<close> is \<open>a / b\<close> for a dividend that is the
  \<open>len\<close> of an object in memory and a positive constant divisor: a length is below
  \<open>2 ^ 63\<close>, so the quotient lies within the floating-point range and the division
  returns.
\<close>

definition int_truediv :: "'r env \<Rightarrow> int \<Rightarrow> int \<Rightarrow> real" where
  "int_truediv E a b = fl E (real_of_int a / real_of_int b)"

text \<open>
  \<open>a / b\<close> for integers of any size. The quotient is rounded to the nearest
  floating-point number; when it lies at or beyond \<open>2 ^ 1024 - 2 ^ 970\<close>, halfway
  between the largest floating-point number and \<open>2 ^ 1024\<close>, nothing finite stands for
  it and the division raises \<open>OverflowError\<close>. A zero divisor raises
  \<open>ZeroDivisionError\<close>.
\<close>

definition float_overflow_bound :: real where
  "float_overflow_bound = 2 ^ 1024 - 2 ^ 970"

definition py_truediv :: "'r env \<Rightarrow> int \<Rightarrow> int \<Rightarrow> exn + real" where
  "py_truediv E a b =
     (if b = 0 then Inl (Raise ZeroDivisionError ''division by zero'')
      else if float_overflow_bound \<le> \<bar>real_of_int a / real_of_int b\<bar>
      then Inl (Raise OverflowError ''integer division result too large for a float'')
      else Inr (fl E (real_of_int a / real_of_int b)))"

text \<open>
  The products and the sum of \<open>calculate_token_cost\<close> stay within the range: each
  product is a quotient that was representable times a price below one.
\<close>

definition float_div :: "'r env \<Rightarrow> real \<Rightarrow> real \<Rightarrow> real" where
  "float_div E x y = fl E (x / y)"

definition float_mul :: "'r env \<Rightarrow> real \<Rightarrow> real \<Rightarrow> real" where
  "float_mul E x y = fl E (x * y)"

definition float_add :: "'r env \<Rightarrow> real \<Rightarrow> real \<Rightarrow> real" where
  "float_add E x y = fl E (x + y)"

section \<open>config.py\<close>

text \<open>The module constants, read from the process environment when the module loads.\<close>

record config =
  OUTPUT_DIR :: string
  MAX_AUDIO_LENGTH_MINUTES :: int
  DEFAULT_LANGUAGE :: string
  DEFAULT_MODEL :: string
  WHISPER_MODEL :: string
  MAX_TOKENS :: int

text \<open>The values when no environment variable is set, for a given base directory.\<close>

definition default_config :: "string \<Rightarrow> config" where
  "default_config base_dir =
     \<lparr>OUTPUT_DIR = path_join base_dir ''output'',
      MAX_AUDIO_LENGTH_MINUTES = 10,
      DEFAULT_LANGUAGE = ''es'',
      DEFAULT_MODEL = ''gpt-3.5-turbo'',
      WHISPER_MODEL = ''whisper-1'',
      MAX_TOKENS = 4000\<rparr>"

section \<open>token\_cost.py\<close>

text \<open>The price literals are floating-point numbers: the roundings of the decimals.\<close>

definition MODEL_PRICES :: "'r env \<Rightarrow> (string \<times> (string \<times> real) list) list" where
  "MODEL_PRICES E =
     [(''gpt-4'', [(''input'', fl E (3 / 100)), (''output'', fl E (6 / 100))]),
      (''gpt-3.5-turbo'', [(''input'', fl E (15 / 10000)), (''output'', fl E (2 / 1000))])]"

text \<open>\<open>d[k]\<close> on a dictionary with string keys.\<close>

definition getitem :: "(string \<times> 'v) list \<Rightarrow> string \<Rightarrow> exn + 'v" where
  "getitem d k = (case map_of d k of None \<Rightarrow> Inl (Raise KeyError (repr_str k)) | Some v \<Rightarrow> Inr v)"

definition get_token_count :: "'r env \<Rightarrow> string \<Rightarrow> string \<Rightarrow> exn + nat" where
  "get_token_count E text model' =
     (case (case encoding_for_model E model' of
              Inl e \<Rightarrow> Inl e
            | Inr encode \<Rightarrow>
                (case encode text of Inl e \<Rightarrow> Inl e | Inr tokens \<Rightarrow> Inr (length tokens))) of
        Inl e \<Rightarrow>
          (if class_of e = KeyError
           then Inl (Raise ValueError (''Modelo no soportado: '' @ model'))
           else Inl e)
      | Inr n \<Rightarrow> Inr n)"

text \<open>
  \<open>input_tokens\<close> is the \<open>len\<close> of the token list; \<open>max_output_tokens\<close> is an
  integer of the caller, of any size, and dividing it can raise \<open>OverflowError\<close>.
\<close>

definition calculate_token_cost :: "'r env \<Rightarrow> string \<Rightarrow> int \<Rightarrow> string \<Rightarrow> exn + real" where
  "calculate_token_cost E input_text max_output_tokens model' =
     (if model' \<notin> set (map fst (MODEL_PRICES E))
      then Inl (Raise ValueError
             (''No se encontraron precios para el modelo '' @ model' @
              ''. Modelos soportados: '' @ repr_list (map fst (MODEL_PRICES E))))
      else
        (case get_token_count E input_text model' of
           Inl e \<Rightarrow> Inl e
         | Inr input_tokens \<Rightarrow>
             (case getitem (MODEL_PRICES E) model' of
                Inl e \<Rightarrow> Inl e
              | Inr prices \<Rightarrow>
                  (case getitem prices ''input'' of
                     Inl e \<Rightarrow> Inl e
                   | Inr input_price \<Rightarrow>
                       (let input_cost =
                              float_mul E (int_truediv E (int input_tokens) 1000) input_price
                        in case py_truediv E max_output_tokens 1000 of
                             Inl e \<Rightarrow> Inl e
                           | Inr output_thousands \<Rightarrow>
                               (case getitem prices ''output'' of
                                  Inl e \<Rightarrow> Inl e
                                | Inr output_price \<Rightarrow>
                                    (let output_cost =
                                           float_mul E output_thousands output_price
                                     in Inr (float_add E input_cost output_cost))))))))"

section \<open>llm.py\<close>

definition transcribe_with_whisper ::
    "config \<Rightarrow> 'r env \<Rightarrow> trace \<Rightarrow> string \<Rightarrow> string option \<Rightarrow> (exn + string) \<times> trace" where
  "transcribe_with_whisper C E tr audio_file_path language =
     (let handler = (\<lambda>e.
            if class_of e = FileNotFoundError
            then Raise FileNotFoundError
                   (''No se encontr'' @ [CHR 0xF3] @ '' el archivo: '' @ audio_file_path)
            else Raise OpenAIError
                   (''Error en la transcripci'' @ [CHR 0xF3] @ ''n: '' @ str_exn e));
          tr1 = tr @ [EvOpen audio_file_path]
      in case open_rb E tr audio_file_path of
           Some e \<Rightarrow> (Inl (handler e), tr1)
         | None \<Rightarrow>
             (let tr2 = tr1 @ [EvTranscribe (WHISPER_MODEL C) audio_file_path language]
              in case Audio_transcribe E tr1 audio_file_path language of
                   Inl e \<Rightarrow> (Inl (handler e), tr2)
                 | Inr None \<Rightarrow> (Inl (handler (Raise KeyError (repr_str ''text''))), tr2)
                 | Inr (Some text) \<Rightarrow> (Inr text, tr2)))"

text \<open>
  The cost estimate and the request share one \<open>try\<close> block, whose handler turns every
  exception into an \<open>OpenAIError\<close>.
\<close>

definition chat_completion ::
    "config \<Rightarrow> 'r env \<Rightarrow> trace \<Rightarrow> string \<Rightarrow> string option \<Rightarrow> int \<Rightarrow> real
      \<Rightarrow> (exn + 'r) \<times> trace" where
  "chat_completion C E tr prompt system_prompt max_tokens' temperature' =
     (let handler = (\<lambda>e. Raise OpenAIError
            (''Error en la generaci'' @ [CHR 0xF3] @ ''n de texto: '' @ str_exn e));
          messages' =
            (case system_prompt of
               None \<Rightarrow> []
             | Some s \<Rightarrow> if s \<noteq> [] then [(''system'', s)] else []) @ [(''user'', prompt)]
      in case calculate_token_cost E prompt max_tokens' (DEFAULT_MODEL C) of
           Inl e \<Rightarrow> (Inl (handler e), tr)
         | Inr estimated_cost \<Rightarrow>
             (let request = \<lparr>model = DEFAULT_MODEL C, messages = messages',
                             max_tokens = max_tokens', temperature = temperature'\<rparr>
              in case ChatCompletion_create E tr request of
                   Inl e \<Rightarrow> (Inl (handler e), tr @ [EvChat request])
                 | Inr response \<Rightarrow> (Inr response, tr @ [EvChat request])))"

section \<open>audio\_divide.py\<close>

text \<open>
  \<open>convert_to_audio\<close>: the existence check and the choice of the output path are the
  code's; the conversion itself is the oracle \<open>transcode\<close>.
\<close>

definition convert_to_audio ::
    "config \<Rightarrow> 'r env \<Rightarrow> trace \<Rightarrow> string \<Rightarrow> string option \<Rightarrow> (exn + string) \<times> trace" where
  "convert_to_audio C E tr video_path output_path =
     (if \<not> os_path_exists E tr video_path
      then (Inl (Raise FileNotFoundError
              (''No se encontr'' @ [CHR 0xF3] @ '' el archivo: '' @ video_path)), tr)
      else
        (let output_path' =
               (case output_path of
                  None \<Rightarrow> path_join (OUTPUT_DIR C) (Path_stem video_path @ ''_audio.mp3'')
                | Some p \<Rightarrow> p)
         in case transcode E tr video_path output_path' of
              None \<Rightarrow> (Inr output_path', tr @ [EvTranscode video_path output_path'])
            | Some e \<Rightarrow> (Inl e, tr @ [EvTranscode video_path output_path'])))"

text \<open>
  The body of the \<open>for\<close> loop of \<open>split_audio\<close>, run over the values of the range.
  \<open>audio[i:i + max_length_ms]\<close> is the piece from \<open>i\<close> to the smaller of
  \<open>i + max_length_ms\<close> and the length of the audio; the export event records the file
  and the two ends of the piece.
\<close>

fun split_loop ::
    "config \<Rightarrow> 'r env \<Rightarrow> string \<Rightarrow> int \<Rightarrow> int \<Rightarrow> int list \<Rightarrow> string list \<Rightarrow> trace
      \<Rightarrow> (exn + string list) \<times> trace" where
  "split_loop C E audio_path len_audio max_length_ms [] segments tr = (Inr segments, tr)"
| "split_loop C E audio_path len_audio max_length_ms (i # rest) segments tr =
     (let segment_path =
            path_join (OUTPUT_DIR C)
              (Path_stem audio_path @ ''_part'' @ str_int (int (length segments) + 1) @ ''.mp3'');
          tr' = tr @ [EvExport segment_path i (min (i + max_length_ms) len_audio)]
      in case export E tr segment_path of
           Some e \<Rightarrow> (Inl e, tr')
         | None \<Rightarrow>
             split_loop C E audio_path len_audio max_length_ms rest
               (segments @ [segment_path]) tr')"

text \<open>
  Everything after the existence check runs inside one \<open>try\<close> block whose handler turns
  every exception into a \<open>ValueError\<close>. Computing \<open>total_segments\<close> divides by
  \<open>max_length_ms\<close> and raises when that is zero.
\<close>

definition split_audio ::
    "config \<Rightarrow> 'r env \<Rightarrow> trace \<Rightarrow> string \<Rightarrow> int \<Rightarrow> (exn + string list) \<times> trace" where
  "split_audio C E tr audio_path max_length_minutes =
     (if \<not> os_path_exists E tr audio_path
      then (Inl (Raise FileNotFoundError
              (''No se encontr'' @ [CHR 0xF3] @ '' el archivo: '' @ audio_path)), tr)
      else
        (let handler = (\<lambda>e. Raise ValueError (''Error al procesar el audio: '' @ str_exn e));
             tr1 = tr @ [EvDecode audio_path]
         in case AudioSegment_from_file E tr audio_path of
              Inl e \<Rightarrow> (Inl (handler e), tr1)
            | Inr n \<Rightarrow>
                (let len_audio = int n;
                     max_length_ms = max_length_minutes * 60 * 1000
                 in if len_audio \<le> max_length_ms then (Inr [audio_path], tr1)
                    else if max_length_ms = 0
                    then (Inl (handler (Raise ZeroDivisionError
                                 ''integer division or modulo by zero'')), tr1)
                    else
                      (case py_range 0 len_audio max_length_ms of
                         Inl e \<Rightarrow> (Inl (handler e), tr1)
                       | Inr indices \<Rightarrow>
                           (case split_loop C E audio_path len_audio max_length_ms
                                   indices [] tr1 of
                              (Inl e, tr2) \<Rightarrow> (Inl (handler e), tr2)
                            | (Inr segments, tr2) \<Rightarrow> (Inr segments, tr2))))))"

text \<open>\<open>float(probe['streams'][0]['duration'])\<close>.\<close>

definition probe_duration :: "'r env \<Rightarrow> stream list \<Rightarrow> exn + real" where
  "probe_duration E streams =
     (case streams of
        [] \<Rightarrow> Inl (Raise IndexError ''list index out of range'')
      | stream0 # _ \<Rightarrow>
          (case getitem stream0 ''duration'' of
             Inl e \<Rightarrow> Inl e
           | Inr s \<Rightarrow>
               (case float_of_string E s of
                  None \<Rightarrow> Inl (Raise ValueError
                             (''could not convert string to float: '' @ repr_str s))
                | Some d \<Rightarrow> Inr d)))"

text \<open>
  The handler of the first \<open>try\<close> is \<open>except ffmpeg.Error\<close>: only an exception of that
  class starts the second attempt, any other one leaves the function.
\<close>

definition get_audio_duration ::
    "'r env \<Rightarrow> trace \<Rightarrow> string \<Rightarrow> (exn + real) \<times> trace" where
  "get_audio_duration E tr audio_path =
     (if \<not> os_path_exists E tr audio_path
      then (Inl (Raise FileNotFoundError
              (''No se encontr'' @ [CHR 0xF3] @ '' el archivo: '' @ audio_path)), tr)
      else
        (let tr1 = tr @ [EvProbe audio_path];
             first_try =
               (case ffmpeg_probe E tr audio_path of
                  Inl e \<Rightarrow> Inl e
                | Inr streams \<Rightarrow>
                    (case probe_duration E streams of
                       Inl e \<Rightarrow> Inl e
                     | Inr duration \<Rightarrow> Inr (float_div E duration 60)))
         in case first_try of
              Inr minutes \<Rightarrow> (Inr minutes, tr1)
            | Inl e \<Rightarrow>
                (if class_of e = ffmpeg_Error
                 then
                   (case AudioSegment_from_file E tr1 audio_path of
                      Inr n \<Rightarrow> (Inr (int_truediv E (int n) (1000 * 60)), tr1 @ [EvDecode audio_path])
                    | Inl e2 \<Rightarrow>
                        (Inl (Raise ValueError
                           (''Error al obtener la duraci'' @ [CHR 0xF3] @ ''n del audio: '' @
                            str_exn e2)), tr1 @ [EvDecode audio_path]))
                 else (Inl e, tr1))))"

section \<open>transcriptions.py\<close>

definition SUPPORTED_AUDIO_EXTENSIONS :: "string set" where
  "SUPPORTED_AUDIO_EXTENSIONS = {''.mp3'', ''.wav'', ''.m4a'', ''.aac'', ''.ogg'', ''.flac''}"

definition SUPPORTED_VIDEO_EXTENSIONS :: "string set" where
  "SUPPORTED_VIDEO_EXTENSIONS = {''.mp4'', ''.avi'', ''.mkv'', ''.mov'', ''.wmv'', ''.flv''}"

definition is_audio_file :: "string \<Rightarrow> bool" where
  "is_audio_file file_path \<longleftrightarrow> lower (Path_suffix file_path) \<in> SUPPORTED_AUDIO_EXTENSIONS"

definition is_video_file :: "string \<Rightarrow> bool" where
  "is_video_file file_path \<longleftrightarrow> lower (Path_suffix file_path) \<in> SUPPORTED_VIDEO_EXTENSIONS"

text \<open>
  The loop of \<open>_transcribe_segments\<close>: one call of \<open>transcribe_with_whisper\<close> for each
  segment, whose text (or the empty string when the call raised) is appended to
  \<open>transcriptions\<close>.
\<close>

fun transcribe_loop ::
    "config \<Rightarrow> 'r env \<Rightarrow> string option \<Rightarrow> string list \<Rightarrow> string list \<Rightarrow> trace
      \<Rightarrow> string list \<times> trace" where
  "transcribe_loop C E language [] transcriptions tr = (transcriptions, tr)"
| "transcribe_loop C E language (segment # rest) transcriptions tr =
     (case transcribe_with_whisper C E tr segment language of
        (Inr text, tr') \<Rightarrow> transcribe_loop C E language rest (transcriptions @ [text]) tr'
      | (Inl e, tr') \<Rightarrow> transcribe_loop C E language rest (transcriptions @ [[]]) tr')"

definition transcribe_segments ::
    "config \<Rightarrow> 'r env \<Rightarrow> trace \<Rightarrow> string list \<Rightarrow> string option \<Rightarrow> string \<times> trace" where
  "transcribe_segments C E tr segments language =
     (case transcribe_loop C E language segments [] tr of
        (transcriptions, tr') \<Rightarrow> (join [CHR 0x0A] transcriptions, tr'))"

definition unsupported_format_message :: "'r env \<Rightarrow> string" where
  "unsupported_format_message E =
     ''Formato no soportado. Formatos soportados: '' @
     ''Audio: '' @ join '', '' (set_order E SUPPORTED_AUDIO_EXTENSIONS) @ '', '' @
     ''Video: '' @ join '', '' (set_order E SUPPORTED_VIDEO_EXTENSIONS)"

definition transcribe_audio ::
    "config \<Rightarrow> 'r env \<Rightarrow> trace \<Rightarrow> string \<Rightarrow> string option \<Rightarrow> (exn + string) \<times> trace" where
  "transcribe_audio C E tr audio_path language =
     (if \<not> os_path_exists E tr audio_path
      then (Inl (Raise FileNotFoundError
              (''No se encontr'' @ [CHR 0xF3] @ '' el archivo: '' @ audio_path)), tr)
      else if \<not> (is_audio_file audio_path \<or> is_video_file audio_path)
      then (Inl (Raise ValueError (unsupported_format_message E)), tr)
      else
        (case (if is_video_file audio_path
               then convert_to_audio C E tr audio_path None
               else (Inr audio_path, tr)) of
           (Inl e, tr1) \<Rightarrow> (Inl e, tr1)
         | (Inr audio_path', tr1) \<Rightarrow>
             (case get_audio_duration E tr1 audio_path' of
                (Inl e, tr2) \<Rightarrow> (Inl e, tr2)
              | (Inr duration, tr2) \<Rightarrow>
                  (if duration > real_of_int (MAX_AUDIO_LENGTH_MINUTES C)
                   then
                     (case split_audio C E tr2 audio_path' (MAX_AUDIO_LENGTH_MINUTES C) of
                        (Inl e, tr3) \<Rightarrow> (Inl e, tr3)
                      | (Inr segments, tr3) \<Rightarrow>
                          (case transcribe_segments C E tr3 segments language of
                             (transcript, tr4) \<Rightarrow> (Inr transcript, tr4)))
                   else transcribe_with_whisper C E tr2 audio_path' language))))"

section \<open>Reading a trace\<close>

text \<open>The files opened for transcription and the segment files exported, in order.\<close>

definition opened_files :: "trace \<Rightarrow> string list" where
  "opened_files tr = concat (map (\<lambda>ev. case ev of EvOpen p \<Rightarrow> [p] | _ \<Rightarrow> []) tr)"

definition exported_files :: "trace \<Rightarrow> string list" where
  "exported_files tr = concat (map (\<lambda>ev. case ev of EvExport p a b \<Rightarrow> [p] | _ \<Rightarrow> []) tr)"

text \<open>The fragment that the segment loop records for the outcome of one transcription.\<close>

definition fragment_of :: "exn + string \<Rightarrow> string" where
  "fragment_of r = (case r of Inl e \<Rightarrow> [] | Inr text \<Rightarrow> text)"

text \<open>The name that \<open>split_audio\<close> gives to the segment with the 1-based index \<open>k\<close>.\<close>

definition segment_path_of :: "config \<Rightarrow> string \<Rightarrow> nat \<Rightarrow> string" where
  "segment_path_of C audio_path k =
     path_join (OUTPUT_DIR C) (Path_stem audio_path @ ''_part'' @ str_int (int k) @ ''.mp3'')"

section \<open>Sample environments\<close>

text \<open>
  A tokenizer in the manner of a byte-pair encoding: the word \<open>hello\<close> is one token,
  any other text has one token for each character.
\<close>

definition sample_encode :: "string \<Rightarrow> exn + nat list" where
  "sample_encode text = (if text = ''hello'' then Inr [15339] else Inr (map of_char text))"

text \<open>
  An environment in which every backend answers: exact arithmetic for the floats, a
  five-minute recording behind every path, and a transcription that names the file.
\<close>

definition quiet_env :: "unit env" where
  "quiet_env =
     \<lparr>fl = (\<lambda>x. x),
      float_of_string = (\<lambda>s. if s = ''300.0'' then Some 300 else None),
      set_order = (\<lambda>S. filter (\<lambda>e. e \<in> S)
         [''.flac'', ''.mp4'', ''.mp3'', ''.mov'', ''.wav'', ''.avi'', ''.ogg'', ''.flv'',
          ''.m4a'', ''.mkv'', ''.aac'', ''.wmv'']),
      encoding_for_model = (\<lambda>m.
         if m = ''gpt-4'' \<or> m = ''gpt-3.5-turbo'' \<or> m = ''gpt-4o'' then Inr sample_encode
         else Inl (Raise KeyError (repr_str m))),
      os_path_exists = (\<lambda>tr p. True),
      transcode = (\<lambda>tr p q. None),
      ffmpeg_probe = (\<lambda>tr p. Inr [[(''codec_type'', ''audio''), (''duration'', ''300.0'')]]),
      AudioSegment_from_file = (\<lambda>tr p. Inr 300000),
      export = (\<lambda>tr p. None),
      open_rb = (\<lambda>tr p. None),
      Audio_transcribe = (\<lambda>tr p l. Inr (Some (''texto de '' @ p))),
      ChatCompletion_create = (\<lambda>tr r. Inr ())\<rparr>"

text \<open>The transcription service fails on the file \<open>seg2.mp3\<close> and on no other.\<close>

definition second_fails_env :: "unit env" where
  "second_fails_env =
     quiet_env\<lparr>Audio_transcribe := (\<lambda>tr p l.
        if p = ''seg2.mp3'' then Inl (Raise OtherException ''Connection error'')
        else Inr (Some (''texto de '' @ p)))\<rparr>"

text \<open>The transcription service fails on every call.\<close>

definition whisper_down_env :: "unit env" where
  "whisper_down_env =
     quiet_env\<lparr>Audio_transcribe := (\<lambda>tr p l. Inl (Raise OtherException ''Connection error''))\<rparr>"

text \<open>A recording of 125 minutes.\<close>

definition long_audio_env :: "unit env" where
  "long_audio_env = quiet_env\<lparr>AudioSegment_from_file := (\<lambda>tr p. Inr 7500000)\<rparr>"




text \<open>The configuration when the variable \<open>MODEL\<close> is set to \<open>gpt-4o\<close>.\<close>

definition gpt4o_config :: config where
  "gpt4o_config = (default_config ''/app'')\<lparr>DEFAULT_MODEL := ''gpt-4o''\<rparr>"


text \<open>
  The probe reports 720 seconds, the decoded recording lasts 480000 milliseconds, and
  the transcription service is down.
\<close>

definition probe_longer_env :: "unit env" where
  "probe_longer_env =
     quiet_env\<lparr>float_of_string := (\<lambda>s. if s = ''720.0'' then Some 720 else None),
               ffmpeg_probe := (\<lambda>tr p. Inr [[(''codec_type'', ''audio''),
                                              (''duration'', ''720.0'')]]),
               AudioSegment_from_file := (\<lambda>tr p. Inr 480000),
               Audio_transcribe := (\<lambda>tr p l. Inl (Raise OtherException ''Connection error''))\<rparr>"

section \<open>The segment loop\<close>

lemma transcribe_loop_step:
  "transcribe_loop C E l (s # rest) acc tr =
     transcribe_loop C E l rest
       (acc @ [fragment_of (fst (transcribe_with_whisper C E tr s l))])
       (snd (transcribe_with_whisper C E tr s l))"
  by (cases "transcribe_with_whisper C E tr s l")
     (auto simp: fragment_of_def split: sum.splits)

lemma transcribe_loop_append:
  "transcribe_loop C E l (xs @ ys) acc tr =
     transcribe_loop C E l ys (fst (transcribe_loop C E l xs acc tr))
       (snd (transcribe_loop C E l xs acc tr))"
proof (induction xs arbitrary: acc tr)
  case Nil
  show ?case by simp
next
  case (Cons x xs)
  show ?case
    unfolding append_Cons transcribe_loop_step by (rule Cons.IH)
qed

lemma transcribe_loop_acc:
  "fst (transcribe_loop C E l xs acc tr) = acc @ fst (transcribe_loop C E l xs [] tr)
   \<and> snd (transcribe_loop C E l xs acc tr) = snd (transcribe_loop C E l xs [] tr)"
proof (induction xs arbitrary: acc tr)
  case Nil
  show ?case by simp
next
  case (Cons x xs)
  show ?case
    unfolding transcribe_loop_step
    using Cons.IH [of "acc @ [fragment_of (fst (transcribe_with_whisper C E tr x l))]"]
          Cons.IH [of "[] @ [fragment_of (fst (transcribe_with_whisper C E tr x l))]"]
    by simp
qed

lemma transcribe_loop_length:
  "length (fst (transcribe_loop C E l xs acc tr)) = length acc + length xs"
proof (induction xs arbitrary: acc tr)
  case Nil
  show ?case by simp
next
  case (Cons x xs)
  show ?case unfolding transcribe_loop_step by (simp add: Cons.IH)
qed

lemma opened_files_whisper:
  "opened_files (snd (transcribe_with_whisper C E tr s l)) = opened_files tr @ [s]"
  by (auto simp: transcribe_with_whisper_def opened_files_def Let_def
           split: option.splits sum.splits)

lemma transcribe_loop_opened:
  "opened_files (snd (transcribe_loop C E l xs acc tr)) = opened_files tr @ xs"
proof (induction xs arbitrary: acc tr)
  case Nil
  show ?case by simp
next
  case (Cons x xs)
  show ?case unfolding transcribe_loop_step by (simp add: Cons.IH opened_files_whisper)
qed

lemma transcribe_loop_nth:
  assumes "i < length xs"
  shows "fst (transcribe_loop C E l xs [] tr) ! i =
           fragment_of (fst (transcribe_with_whisper C E
             (snd (transcribe_loop C E l (take i xs) [] tr)) (xs ! i) l))"
proof -
  let ?pre = "transcribe_loop C E l (take i xs) [] tr"
  let ?f = "fragment_of (fst (transcribe_with_whisper C E (snd ?pre) (xs ! i) l))"
  let ?tr = "snd (transcribe_with_whisper C E (snd ?pre) (xs ! i) l)"
  have split: "xs = take i xs @ (xs ! i) # drop (Suc i) xs"
    using assms by (simp add: id_take_nth_drop)
  have "transcribe_loop C E l xs [] tr =
          transcribe_loop C E l ((xs ! i) # drop (Suc i) xs) (fst ?pre) (snd ?pre)"
    using transcribe_loop_append [of C E l "take i xs" "(xs ! i) # drop (Suc i) xs" "[]" tr]
          split by simp
  also have "\<dots> = transcribe_loop C E l (drop (Suc i) xs) (fst ?pre @ [?f]) ?tr"
    by (rule transcribe_loop_step)
  finally have "fst (transcribe_loop C E l xs [] tr) =
                  (fst ?pre @ [?f]) @ fst (transcribe_loop C E l (drop (Suc i) xs) [] ?tr)"
    using transcribe_loop_acc by metis
  moreover have "length (fst ?pre) = i"
    using assms by (simp add: transcribe_loop_length)
  ultimately show ?thesis by (simp add: nth_append)
qed

text \<open>
  C1. For every list of segments, the loop of \<open>_transcribe_segments\<close> yields one fragment
  for each segment, in the order of the segments: the fragment at position \<open>i\<close> is the
  text that \<open>transcribe_with_whisper\<close> returned for segment \<open>i\<close> at that moment of the
  run, and the empty string when that call raised. Every segment is attempted, one after
  the other, whatever happened to the earlier ones: the files opened during the run are
  exactly the segments, in order. The transcript returned is the fragments joined by
  newlines.
\<close>

theorem transcribe_segments_keeps_order:
  "\<exists>fragments tr'.
      transcribe_loop C E language segments [] tr = (fragments, tr')
    \<and> transcribe_segments C E tr segments language = (join [CHR 0x0A] fragments, tr')
    \<and> length fragments = length segments
    \<and> (\<forall>i < length segments.
          fragments ! i =
            (case fst (transcribe_with_whisper C E
                    (snd (transcribe_loop C E language (take i segments) [] tr))
                    (segments ! i) language) of
               Inl e \<Rightarrow> []
             | Inr text \<Rightarrow> text))
    \<and> opened_files tr' = opened_files tr @ segments"
proof -
  obtain fragments tr' where
    r: "transcribe_loop C E language segments [] tr = (fragments, tr')"
    by (cases "transcribe_loop C E language segments [] tr")
  have f: "fragments = fst (transcribe_loop C E language segments [] tr)"
    and t: "tr' = snd (transcribe_loop C E language segments [] tr)"
    using r by simp_all
  have 1: "transcribe_segments C E tr segments language = (join [CHR 0x0A] fragments, tr')"
    by (simp add: transcribe_segments_def r)
  have 2: "length fragments = length segments"
    unfolding f by (simp add: transcribe_loop_length)
  have 3: "\<forall>i < length segments.
          fragments ! i =
            (case fst (transcribe_with_whisper C E
                    (snd (transcribe_loop C E language (take i segments) [] tr))
                    (segments ! i) language) of
               Inl e \<Rightarrow> []
             | Inr text \<Rightarrow> text)"
    unfolding f using transcribe_loop_nth [of _ segments C E language tr]
    by (simp add: fragment_of_def)
  have 4: "opened_files tr' = opened_files tr @ segments"
    unfolding t by (rule transcribe_loop_opened)
  from r 1 2 3 4 show ?thesis by blast
qed

text \<open>
  Three segments, the transcription of the second one fails: three fragments, the
  second one empty, the third segment still transcribed.
\<close>

theorem transcribe_segments_keeps_order_witness:
  "(1::nat) < length [''seg1.mp3'', ''seg2.mp3'', ''seg3.mp3'']
   \<and> fst (transcribe_with_whisper (default_config ''/app'') second_fails_env
           (snd (transcribe_loop (default_config ''/app'') second_fails_env (Some ''es'')
                  (take 1 [''seg1.mp3'', ''seg2.mp3'', ''seg3.mp3'']) [] []))
           ([''seg1.mp3'', ''seg2.mp3'', ''seg3.mp3''] ! 1) (Some ''es''))
       = Inl (Raise OpenAIError
               (''Error en la transcripci'' @ [CHR 0xF3] @ ''n: Connection error''))
   \<and> transcribe_loop (default_config ''/app'') second_fails_env (Some ''es'')
        [''seg1.mp3'', ''seg2.mp3'', ''seg3.mp3''] [] []
       = ([''texto de seg1.mp3'', [], ''texto de seg3.mp3''],
          [EvOpen ''seg1.mp3'', EvTranscribe ''whisper-1'' ''seg1.mp3'' (Some ''es''),
           EvOpen ''seg2.mp3'', EvTranscribe ''whisper-1'' ''seg2.mp3'' (Some ''es''),
           EvOpen ''seg3.mp3'', EvTranscribe ''whisper-1'' ''seg3.mp3'' (Some ''es'')])
   \<and> fst (transcribe_segments (default_config ''/app'') second_fails_env []
           [''seg1.mp3'', ''seg2.mp3'', ''seg3.mp3''] (Some ''es''))
       = ''texto de seg1.mp3'' @ [CHR 0x0A, CHR 0x0A] @ ''texto de seg3.mp3''"
  using transcribe_segments_keeps_order
          [of "default_config ''/app''" second_fails_env "Some ''es''"
              "[''seg1.mp3'', ''seg2.mp3'', ''seg3.mp3'']" "[]"]
  by (simp add: transcribe_segments_def transcribe_with_whisper_def second_fails_env_def
        quiet_env_def default_config_def)

section \<open>Splitting a recording\<close>

lemma range_values_pos:
  "0 < step \<Longrightarrow>
   range_values start stop step =
     map (\<lambda>k. start + int k * step)
       [0..<nat \<lceil>real_of_int (stop - start) / real_of_int step\<rceil>]"
proof (induction start stop step rule: range_values.induct)
  case (1 start stop step)
  show ?case
  proof (cases "start < stop")
    case False
    then have "real_of_int (stop - start) / real_of_int step \<le> 0"
      using "1.prems" by (simp add: divide_le_0_iff)
    then have "\<lceil>real_of_int (stop - start) / real_of_int step\<rceil> \<le> 0"
      by (simp add: ceiling_le_iff)
    then show ?thesis
      using False "1.prems" by (subst range_values.simps) simp
  next
    case True
    let ?r = "real_of_int (stop - (start + step)) / real_of_int step"
    have eq: "real_of_int (stop - start) / real_of_int step = ?r + 1"
      using "1.prems" by (simp add: field_simps)
    have "- 1 < ?r"
      using True "1.prems" by (simp add: field_simps)
    then have "0 \<le> \<lceil>?r\<rceil>"
      by (simp add: le_ceiling_iff)
    then have n: "nat \<lceil>real_of_int (stop - start) / real_of_int step\<rceil> = Suc (nat \<lceil>?r\<rceil>)"
      unfolding eq by (simp add: nat_add_distrib)
    have "range_values start stop step = start # range_values (start + step) stop step"
      using True "1.prems" by (subst range_values.simps) simp
    also have "\<dots> = start # map (\<lambda>k. start + step + int k * step) [0..<nat \<lceil>?r\<rceil>]"
      using "1.IH" True "1.prems" by simp
    also have "\<dots> = map (\<lambda>k. start + int k * step) [0..<Suc (nat \<lceil>?r\<rceil>)]"
      unfolding map_upt_Suc by (simp add: algebra_simps)
    finally show ?thesis unfolding n .
  qed
qed

lemma split_loop_all_exported:
  assumes "\<forall>tr' q. export E tr' q = None"
  shows "split_loop C E p L W (map f [0..<n]) segs tr =
           (Inr (segs @ map (\<lambda>k. segment_path_of C p (length segs + k + 1)) [0..<n]),
            tr @ map (\<lambda>k. EvExport (segment_path_of C p (length segs + k + 1))
                            (f k) (min (f k + W) L)) [0..<n])"
proof (induction n arbitrary: f segs tr)
  case 0
  show ?case by simp
next
  case (Suc n)
  have "split_loop C E p L W (map f [0..<Suc n]) segs tr =
          split_loop C E p L W (map (\<lambda>i. f (Suc i)) [0..<n])
            (segs @ [segment_path_of C p (length segs + 1)])
            (tr @ [EvExport (segment_path_of C p (length segs + 1)) (f 0) (min (f 0 + W) L)])"
    unfolding map_upt_Suc using assms
    by (simp add: segment_path_of_def Let_def add.commute)
  also have "\<dots> =
      (Inr (segs @ map (\<lambda>k. segment_path_of C p (length segs + k + 1)) [0..<Suc n]),
       tr @ map (\<lambda>k. EvExport (segment_path_of C p (length segs + k + 1))
                       (f k) (min (f k + W) L)) [0..<Suc n])"
    unfolding Suc.IH map_upt_Suc by simp
  finally show ?case .
qed

lemma window_end:
  assumes "0 < W" "k < nat \<lceil>real_of_int L / real_of_int W\<rceil>"
  shows "min (int k * W + W) L =
           (if Suc k < nat \<lceil>real_of_int L / real_of_int W\<rceil> then (int k + 1) * W else L)"
proof (cases "Suc k < nat \<lceil>real_of_int L / real_of_int W\<rceil>")
  case True
  then have "int (Suc k) < \<lceil>real_of_int L / real_of_int W\<rceil>" by linarith
  then have "real_of_int (int (Suc k)) < real_of_int L / real_of_int W"
    by (simp only: less_ceiling_iff)
  then have "real_of_int (int (Suc k)) * real_of_int W < real_of_int L"
    using assms(1) by (simp add: pos_less_divide_eq)
  then have "real_of_int (int (Suc k) * W) < real_of_int L" by simp
  then have "int (Suc k) * W < L" by (simp only: of_int_less_iff)
  then show ?thesis using True by (simp add: algebra_simps)
next
  case False
  then have "\<lceil>real_of_int L / real_of_int W\<rceil> \<le> int (Suc k)" by linarith
  then have "real_of_int L / real_of_int W \<le> real_of_int (int (Suc k))"
    by (simp only: ceiling_le_iff)
  then have "real_of_int L \<le> real_of_int (int (Suc k)) * real_of_int W"
    using assms(1) by (simp add: pos_divide_le_eq)
  then have "real_of_int L \<le> real_of_int (int (Suc k) * W)" by simp
  then have "L \<le> int (Suc k) * W" by (simp only: of_int_le_iff)
  then show ?thesis using False by (simp add: algebra_simps)
qed

text \<open>
  C2. Let a recording of \<open>n\<close> milliseconds be longer than a positive window of
  \<open>max_length_minutes\<close>, that is \<open>W = max_length_minutes * 60 * 1000\<close> milliseconds,
  and let every export succeed. Then \<open>split_audio\<close> returns \<open>N = ceil(n / W)\<close> segment
  files, named in order with the indices \<open>1\<close> to \<open>N\<close>; segment \<open>k + 1\<close> is the piece of
  the recording from \<open>k * W\<close> to \<open>(k + 1) * W\<close>, except the last one, which ends where
  the recording ends.
\<close>

theorem split_audio_segment_count:
  assumes "os_path_exists E tr audio_path"
    and "AudioSegment_from_file E tr audio_path = Inr n"
    and "0 < max_length_minutes"
    and "max_length_minutes * 60 * 1000 < int n"
    and "\<forall>tr' q. export E tr' q = None"
  shows "let W = max_length_minutes * 60 * 1000;
             N = nat \<lceil>real_of_int (int n) / real_of_int W\<rceil>
         in split_audio C E tr audio_path max_length_minutes =
              (Inr (map (\<lambda>k. segment_path_of C audio_path (k + 1)) [0..<N]),
               tr @ [EvDecode audio_path] @
               map (\<lambda>k. EvExport (segment_path_of C audio_path (k + 1))
                          (int k * W) (if Suc k < N then (int k + 1) * W else int n))
                 [0..<N])"
proof -
  define W where "W = max_length_minutes * 60 * 1000"
  define N where "N = nat \<lceil>real_of_int (int n) / real_of_int W\<rceil>"
  have W: "0 < W" "W < int n" "W \<noteq> 0"
    using assms(3,4) by (simp_all add: W_def)
  have indices: "py_range 0 (int n) W = Inr (map (\<lambda>k. 0 + int k * W) [0..<N])"
    using W range_values_pos [of W 0 "int n"] by (simp add: py_range_def N_def)
  have loop: "split_loop C E audio_path (int n) W (map (\<lambda>k. 0 + int k * W) [0..<N]) []
                (tr @ [EvDecode audio_path]) =
         (Inr ([] @ map (\<lambda>k. segment_path_of C audio_path (length ([]::string list) + k + 1))
                      [0..<N]),
          (tr @ [EvDecode audio_path]) @
          map (\<lambda>k. EvExport (segment_path_of C audio_path (length ([]::string list) + k + 1))
                     (0 + int k * W) (min (0 + int k * W + W) (int n))) [0..<N])"
    by (rule split_loop_all_exported [OF assms(5)])
  have ends: "map (\<lambda>k. EvExport (segment_path_of C audio_path (length ([]::string list) + k + 1))
                     (0 + int k * W) (min (0 + int k * W + W) (int n))) [0..<N]
            = map (\<lambda>k. EvExport (segment_path_of C audio_path (k + 1))
                          (int k * W) (if Suc k < N then (int k + 1) * W else int n)) [0..<N]"
    using window_end [OF W(1), of _ "int n"] by (simp add: N_def)
  have "split_audio C E tr audio_path max_length_minutes =
          (Inr (map (\<lambda>k. segment_path_of C audio_path (k + 1)) [0..<N]),
           tr @ [EvDecode audio_path] @
           map (\<lambda>k. EvExport (segment_path_of C audio_path (k + 1))
                      (int k * W) (if Suc k < N then (int k + 1) * W else int n)) [0..<N])"
    using assms(1,2) W indices loop ends
    by (simp add: split_audio_def Let_def W_def [symmetric])
  then show ?thesis
    by (simp add: Let_def W_def N_def)
qed

text \<open>
  A recording of 125 minutes and a window of 10 minutes: 13 segments, the last one from
  minute 120 to minute 125.
\<close>

theorem split_audio_segment_count_witness:
  "os_path_exists long_audio_env [] ''/data/reunion.mp3''
   \<and> AudioSegment_from_file long_audio_env [] ''/data/reunion.mp3'' = Inr (125 * 60 * 1000)
   \<and> (0::int) < 10
   \<and> (10::int) * 60 * 1000 < int (125 * 60 * 1000)
   \<and> (\<forall>tr' q. export long_audio_env tr' q = None)
   \<and> nat \<lceil>real_of_int (int (125 * 60 * 1000)) / real_of_int (10 * 60 * 1000)\<rceil> = 13
   \<and> length (projr (fst (split_audio (default_config ''/app'') long_audio_env []
                ''/data/reunion.mp3'' 10))) = 13
   \<and> projr (fst (split_audio (default_config ''/app'') long_audio_env []
                ''/data/reunion.mp3'' 10)) ! 12 = ''/app/output/reunion_part13.mp3''
   \<and> snd (split_audio (default_config ''/app'') long_audio_env [] ''/data/reunion.mp3'' 10) ! 13
       = EvExport ''/app/output/reunion_part13.mp3'' (120 * 60 * 1000) (125 * 60 * 1000)"
proof -
  have h1: "os_path_exists long_audio_env [] ''/data/reunion.mp3''"
    by (simp add: long_audio_env_def quiet_env_def)
  have h2: "AudioSegment_from_file long_audio_env [] ''/data/reunion.mp3'' = Inr (125 * 60 * 1000)"
    by (simp add: long_audio_env_def quiet_env_def)
  have h3: "(0::int) < 10" by simp
  have h4: "(10::int) * 60 * 1000 < int (125 * 60 * 1000)" by simp
  have h5: "\<forall>tr' q. export long_audio_env tr' q = None"
    by (simp add: long_audio_env_def quiet_env_def)
  have N: "nat \<lceil>real_of_int (int (125 * 60 * 1000)) / real_of_int (10 * 60 * 1000)\<rceil> = 13"
    by simp
  have name: "segment_path_of (default_config ''/app'') ''/data/reunion.mp3'' 13
                = ''/app/output/reunion_part13.mp3''"
    by (simp add: segment_path_of_def default_config_def path_join_def Path_stem_def
          Path_name_def rfind_def str_int_def digits.simps)
  note r = split_audio_segment_count [OF h1 h2 h3 h4 h5, of "default_config ''/app''"]
  show ?thesis
    using h1 h2 h5 r name by (simp add: Let_def)
qed

text \<open>
  C3. When the recording is not longer than \<open>max_length_minutes\<close>, \<open>split_audio\<close>
  returns the list with the path it was given and nothing else; the recording is read
  once and no segment file is exported.
\<close>

theorem split_audio_short_unchanged:
  assumes "os_path_exists E tr audio_path"
    and "AudioSegment_from_file E tr audio_path = Inr n"
    and "int n \<le> max_length_minutes * 60 * 1000"
  shows "split_audio C E tr audio_path max_length_minutes =
           (Inr [audio_path], tr @ [EvDecode audio_path])
         \<and> exported_files (snd (split_audio C E tr audio_path max_length_minutes)) =
             exported_files tr"
  using assms by (simp add: split_audio_def Let_def exported_files_def)

theorem split_audio_short_unchanged_witness:
  "os_path_exists quiet_env [] ''/data/reunion.mp3''
   \<and> AudioSegment_from_file quiet_env [] ''/data/reunion.mp3'' = Inr 300000
   \<and> int 300000 \<le> 10 * 60 * 1000
   \<and> split_audio (default_config ''/app'') quiet_env [] ''/data/reunion.mp3'' 10 =
       (Inr [''/data/reunion.mp3''], [EvDecode ''/data/reunion.mp3''])
   \<and> exported_files (snd (split_audio (default_config ''/app'') quiet_env []
         ''/data/reunion.mp3'' 10)) = []"
proof -
  have h1: "os_path_exists quiet_env [] ''/data/reunion.mp3''"
    by (simp add: quiet_env_def)
  have h2: "AudioSegment_from_file quiet_env [] ''/data/reunion.mp3'' = Inr 300000"
    by (simp add: quiet_env_def)
  have h3: "int 300000 \<le> 10 * 60 * 1000" by simp
  show ?thesis
    using h1 h2 h3 split_audio_short_unchanged [OF h1 h2 h3, of "default_config ''/app''"]
    by (simp add: exported_files_def)
qed

section \<open>The cost estimate\<close>

lemma MODEL_PRICES_keys: "map fst (MODEL_PRICES E) = [''gpt-4'', ''gpt-3.5-turbo'']"
  by (simp add: MODEL_PRICES_def)

lemma supported_models_repr:
  "repr_list (map fst (MODEL_PRICES E)) = ''['gpt-4', 'gpt-3.5-turbo']''"
  by (simp add: MODEL_PRICES_keys repr_list_def repr_str_def)

text \<open>
  C6. For every text and every ceiling of output tokens, \<open>calculate_token_cost\<close> with a
  model that has no entry in \<open>MODEL_PRICES\<close> raises a \<open>ValueError\<close> that names the
  model and the supported ones; it returns no cost.
\<close>

theorem unknown_model_rejected:
  assumes "map_of (MODEL_PRICES E) model' = None"
  shows "calculate_token_cost E input_text max_output_tokens model' =
           Inl (Raise ValueError
             (''No se encontraron precios para el modelo '' @ model' @
              ''. Modelos soportados: ['gpt-4', 'gpt-3.5-turbo']''))
         \<and> (\<forall>cost. calculate_token_cost E input_text max_output_tokens model' \<noteq> Inr cost)"
proof -
  have "model' \<notin> set (map fst (MODEL_PRICES E))"
    using assms by (simp add: map_of_eq_None_iff)
  then show ?thesis
    by (simp add: calculate_token_cost_def supported_models_repr)
qed

theorem unknown_model_rejected_witness:
  "map_of (MODEL_PRICES quiet_env) ''not-a-real-model'' = None
   \<and> calculate_token_cost quiet_env ''texto'' 100 ''not-a-real-model'' =
       Inl (Raise ValueError
         (''No se encontraron precios para el modelo not-a-real-model'' @
          ''. Modelos soportados: ['gpt-4', 'gpt-3.5-turbo']''))"
proof -
  have h: "map_of (MODEL_PRICES quiet_env) ''not-a-real-model'' = None"
    by (simp add: MODEL_PRICES_def)
  show ?thesis
    using h unknown_model_rejected [OF h, of "''texto''" 100] by simp
qed




lemma py_truediv_cases:
  "py_truediv E a 1000 =
     (if float_overflow_bound \<le> \<bar>real_of_int a\<bar> / 1000
      then Inl (Raise OverflowError ''integer division result too large for a float'')
      else Inr (fl E (real_of_int a / 1000)))"
  by (simp add: py_truediv_def)

lemma float_overflow_bound_large: "2 ^ 1023 \<le> float_overflow_bound"
proof -
  have "(2::real) ^ 970 \<le> 2 ^ 1023"
    by (rule power_increasing) simp_all
  moreover have "(2::real) ^ 1024 = 2 * 2 ^ 1023"
    by (simp only: power_Suc [symmetric]) simp
  ultimately show ?thesis
    unfolding float_overflow_bound_def by linarith
qed


lemma py_truediv_small:
  assumes "\<bar>a\<bar> \<le> 1000000"
  shows "py_truediv E a 1000 = Inr (fl E (real_of_int a / 1000))"
proof -
  have "\<bar>real_of_int a\<bar> \<le> 1000000"
    using assms by linarith
  then have "\<bar>real_of_int a\<bar> / 1000 < 2 ^ 10"
    by simp
  also have "(2::real) ^ 10 \<le> 2 ^ 1023"
    by (rule power_increasing) simp_all
  also note float_overflow_bound_large
  finally show ?thesis
    by (simp add: py_truediv_cases)
qed





section \<open>The chat request\<close>

text \<open>
  C4, as the claim has it, fails. With \<open>MODEL=gpt-4o\<close> the estimate raises, since the
  price table has no such model; the chat service would have answered the request, but
  \<open>chat_completion\<close> raises an \<open>OpenAIError\<close> and the trace stays empty: the request
  was never sent.
\<close>

theorem estimate_failure_blocks_request_counterexample:
  "calculate_token_cost quiet_env ''Resume la reunion'' 4000 (DEFAULT_MODEL gpt4o_config) =
     Inl (Raise ValueError
       (''No se encontraron precios para el modelo gpt-4o'' @
        ''. Modelos soportados: ['gpt-4', 'gpt-3.5-turbo']''))
   \<and> ChatCompletion_create quiet_env []
        \<lparr>model = ''gpt-4o'', messages = [(''user'', ''Resume la reunion'')],
         max_tokens = 4000, temperature = 7 / 10\<rparr> = Inr ()
   \<and> chat_completion gpt4o_config quiet_env [] ''Resume la reunion'' None 4000 (7 / 10) =
       (Inl (Raise OpenAIError
          (''Error en la generaci'' @ [CHR 0xF3] @ ''n de texto: '' @
           ''No se encontraron precios para el modelo gpt-4o'' @
           ''. Modelos soportados: ['gpt-4', 'gpt-3.5-turbo']'')), [])"
  by (simp add: chat_completion_def calculate_token_cost_def MODEL_PRICES_def
        gpt4o_config_def default_config_def quiet_env_def repr_list_def repr_str_def)

text \<open>
  C4, as the code has it. The estimate is computed first, inside the \<open>try\<close> block of the
  request. When it raises, \<open>chat_completion\<close> raises an \<open>OpenAIError\<close> with the text
  of that exception and sends nothing. When it returns, exactly one request is sent, for
  the configured model and the given ceiling, and its answer or its failure is the
  outcome.
\<close>

theorem chat_completion_after_estimate:
  "(\<forall>e. calculate_token_cost E prompt max_tokens' (DEFAULT_MODEL C) = Inl e \<longrightarrow>
        chat_completion C E tr prompt system_prompt max_tokens' temperature' =
          (Inl (Raise OpenAIError
             (''Error en la generaci'' @ [CHR 0xF3] @ ''n de texto: '' @ str_exn e)), tr))
   \<and> (\<forall>cost. calculate_token_cost E prompt max_tokens' (DEFAULT_MODEL C) = Inr cost \<longrightarrow>
        (\<exists>request.
            model request = DEFAULT_MODEL C
          \<and> max_tokens request = max_tokens'
          \<and> temperature request = temperature'
          \<and> last (messages request) = (''user'', prompt)
          \<and> snd (chat_completion C E tr prompt system_prompt max_tokens' temperature') =
              tr @ [EvChat request]
          \<and> fst (chat_completion C E tr prompt system_prompt max_tokens' temperature') =
              (case ChatCompletion_create E tr request of
                 Inl e \<Rightarrow> Inl (Raise OpenAIError
                   (''Error en la generaci'' @ [CHR 0xF3] @ ''n de texto: '' @ str_exn e))
               | Inr response \<Rightarrow> Inr response)))"
  by (auto simp: chat_completion_def Let_def split: sum.splits)

theorem chat_completion_after_estimate_witness:
  "calculate_token_cost quiet_env ''Resume la reunion'' 4000 (DEFAULT_MODEL gpt4o_config) =
     Inl (Raise ValueError
       (''No se encontraron precios para el modelo gpt-4o'' @
        ''. Modelos soportados: ['gpt-4', 'gpt-3.5-turbo']''))
   \<and> snd (chat_completion gpt4o_config quiet_env [] ''Resume la reunion'' None 4000 (7 / 10))
       = []
   \<and> calculate_token_cost quiet_env ''hello'' 4000 (DEFAULT_MODEL (default_config ''/app'')) =
       Inr (16003 / 2000000)
   \<and> chat_completion (default_config ''/app'') quiet_env [] ''hello'' None 4000 (7 / 10) =
       (Inr (), [EvChat \<lparr>model = ''gpt-3.5-turbo'', messages = [(''user'', ''hello'')],
                        max_tokens = 4000, temperature = 7 / 10\<rparr>])"
proof -
  have h1: "calculate_token_cost quiet_env ''Resume la reunion'' 4000
              (DEFAULT_MODEL gpt4o_config) =
     Inl (Raise ValueError
       (''No se encontraron precios para el modelo gpt-4o'' @
        ''. Modelos soportados: ['gpt-4', 'gpt-3.5-turbo']''))"
    by (simp add: calculate_token_cost_def MODEL_PRICES_def gpt4o_config_def
          default_config_def repr_list_def repr_str_def)
  have h2: "calculate_token_cost quiet_env ''hello'' 4000
              (DEFAULT_MODEL (default_config ''/app'')) = Inr (16003 / 2000000)"
    using py_truediv_small [of 4000 quiet_env]
    by (simp add: calculate_token_cost_def get_token_count_def getitem_def MODEL_PRICES_def
          default_config_def quiet_env_def sample_encode_def float_add_def float_mul_def
          int_truediv_def)
  have c: "ChatCompletion_create quiet_env [] r = Inr ()" for r
    by (simp add: quiet_env_def)
  note a = chat_completion_after_estimate
             [of quiet_env "''Resume la reunion''" 4000 gpt4o_config "[]" None "7 / 10"]
  note b = chat_completion_after_estimate
             [of quiet_env "''hello''" 4000 "default_config ''/app''" "[]" None "7 / 10"]
  have 1: "snd (chat_completion gpt4o_config quiet_env [] ''Resume la reunion'' None 4000
                  (7 / 10)) = []"
    using a h1 by simp
  have 2: "chat_completion (default_config ''/app'') quiet_env [] ''hello'' None 4000 (7 / 10) =
       (Inr (), [EvChat \<lparr>model = ''gpt-3.5-turbo'', messages = [(''user'', ''hello'')],
                        max_tokens = 4000, temperature = 7 / 10\<rparr>])"
    using b h2 c by (simp add: chat_completion_def default_config_def)
  from h1 1 h2 2 show ?thesis by blast
qed

section \<open>The duration of a recording\<close>





section \<open>Classifying and transcribing a file\<close>

lemma lower_char_slash: "lower_char c = CHR ''/'' \<longleftrightarrow> c = CHR ''/''"
  by (simp add: lower_char_def uppercase_def lowercase_def)

lemma lower_char_dot: "lower_char c = CHR ''.'' \<longleftrightarrow> c = CHR ''.''"
  by (simp add: lower_char_def uppercase_def lowercase_def)

lemma lower_simps:
  "lower [] = []" "lower (c # cs) = lower_char c # lower cs"
  "length (lower s) = length s" "lower (drop n s) = drop n (lower s)"
  by (simp_all add: lower_def drop_map)

lemma lower_eq_Nil: "lower x = [] \<longleftrightarrow> x = []"
  by (simp add: lower_def)

lemma lower_eq_dot: "lower x = ''.'' \<longleftrightarrow> x = ''.''"
  by (cases x) (auto simp: lower_def lower_char_dot)

lemma split_sep_lower:
  "split_sep CHR ''/'' (lower p) = map lower (split_sep CHR ''/'' p)"
  by (induction p) (auto simp: lower_simps lower_char_slash split: list.splits)

lemma rfind_from_lower:
  "rfind_from CHR ''.'' (lower s) i = rfind_from CHR ''.'' s i"
  by (induction s arbitrary: i) (auto simp: lower_simps lower_char_dot Let_def)

lemma Path_name_lower: "Path_name (lower p) = lower (Path_name p)"
proof -
  have f: "filter (\<lambda>x. x \<noteq> [] \<and> x \<noteq> ''.'') (map lower xs)
         = map lower (filter (\<lambda>x. x \<noteq> [] \<and> x \<noteq> ''.'') xs)" for xs
    by (induction xs) (auto simp: lower_eq_Nil lower_eq_dot)
  show ?thesis
    by (simp add: Path_name_def split_sep_lower f Let_def last_map lower_simps)
qed

lemma Path_suffix_lower: "Path_suffix (lower p) = lower (Path_suffix p)"
  by (simp add: Path_suffix_def Path_name_lower rfind_def rfind_from_lower Let_def
        lower_simps)

text \<open>
  C10. \<open>is_audio_file\<close> and \<open>is_video_file\<close> compare the lowercased suffix of the path
  with the two sets of extensions. So two paths that differ in the case of their
  letters only are classified alike, a path ending in \<open>.MP3\<close> is an audio file, and a
  path without a suffix is neither an audio file nor a video file.
\<close>

theorem classification_ignores_case:
  "(is_audio_file p \<longleftrightarrow> lower (Path_suffix p) \<in> SUPPORTED_AUDIO_EXTENSIONS)
   \<and> (is_video_file p \<longleftrightarrow> lower (Path_suffix p) \<in> SUPPORTED_VIDEO_EXTENSIONS)
   \<and> (lower p = lower q \<longrightarrow>
        is_audio_file p = is_audio_file q \<and> is_video_file p = is_video_file q)
   \<and> is_audio_file ''/data/Reunion.MP3'' \<and> \<not> is_video_file ''/data/Reunion.MP3''
   \<and> (Path_suffix p = [] \<longrightarrow> \<not> is_audio_file p \<and> \<not> is_video_file p)"
proof -
  have same: "lower (Path_suffix p) = lower (Path_suffix q)" if "lower p = lower q"
    using that Path_suffix_lower [of p] Path_suffix_lower [of q] by simp
  have mp3: "lower (Path_suffix ''/data/Reunion.MP3'') = ''.mp3''"
    by (simp add: Path_suffix_def Path_name_def rfind_def lower_def lower_char_def
          uppercase_def lowercase_def)
  have none: "[] \<notin> SUPPORTED_AUDIO_EXTENSIONS" "[] \<notin> SUPPORTED_VIDEO_EXTENSIONS"
    by (simp_all add: SUPPORTED_AUDIO_EXTENSIONS_def SUPPORTED_VIDEO_EXTENSIONS_def)
  have a: "is_audio_file ''/data/Reunion.MP3''"
    unfolding is_audio_file_def mp3 by (simp add: SUPPORTED_AUDIO_EXTENSIONS_def)
  have v: "\<not> is_video_file ''/data/Reunion.MP3''"
    unfolding is_video_file_def mp3 by (simp add: SUPPORTED_VIDEO_EXTENSIONS_def)
  show ?thesis
    using same none a v by (auto simp: is_audio_file_def is_video_file_def lower_simps)
qed

text \<open>
  \<open>ACTA.Wav\<close> and \<open>acta.wav\<close> are both audio files; \<open>NOTAS\<close> and \<open>notas\<close> have no
  suffix and are neither.
\<close>

theorem classification_ignores_case_witness:
  "lower ''ACTA.Wav'' = lower ''acta.wav''
   \<and> is_audio_file ''ACTA.Wav'' \<and> is_audio_file ''acta.wav''
   \<and> \<not> is_video_file ''ACTA.Wav'' \<and> \<not> is_video_file ''acta.wav''
   \<and> Path_suffix ''NOTAS'' = []
   \<and> \<not> is_audio_file ''NOTAS'' \<and> \<not> is_video_file ''NOTAS''"
proof -
  have h1: "lower ''ACTA.Wav'' = lower ''acta.wav''"
    by (simp add: lower_def lower_char_def uppercase_def lowercase_def)
  have h2: "Path_suffix ''NOTAS'' = []"
    by (simp add: Path_suffix_def Path_name_def rfind_def)
  have a: "is_audio_file ''acta.wav''"
    by (simp add: is_audio_file_def Path_suffix_def Path_name_def rfind_def lower_def
          lower_char_def uppercase_def lowercase_def SUPPORTED_AUDIO_EXTENSIONS_def)
  have v: "\<not> is_video_file ''acta.wav''"
    by (simp add: is_video_file_def Path_suffix_def Path_name_def rfind_def lower_def
          lower_char_def uppercase_def lowercase_def SUPPORTED_VIDEO_EXTENSIONS_def)
  have "is_audio_file ''ACTA.Wav'' = is_audio_file ''acta.wav''
        \<and> is_video_file ''ACTA.Wav'' = is_video_file ''acta.wav''"
    using classification_ignores_case [of "''ACTA.Wav''" "''acta.wav''"] h1 by blast
  moreover have "\<not> is_audio_file ''NOTAS'' \<and> \<not> is_video_file ''NOTAS''"
    using classification_ignores_case [of "''NOTAS''" "''notas''"] h2 by blast
  ultimately show ?thesis
    using h1 h2 a v by blast
qed

lemma join_names_member:
  "x \<in> set xs \<Longrightarrow> \<exists>pre post. join sep xs = pre @ x @ post"
proof (induction sep xs rule: join.induct)
  case (1 sep)
  then show ?case by simp
next
  case (2 sep y)
  then have "join sep [y] = [] @ x @ []" by simp
  then show ?case by blast
next
  case (3 sep y z zs)
  show ?case
  proof (cases "x = y")
    case True
    then have "join sep (y # z # zs) = [] @ x @ (sep @ join sep (z # zs))" by simp
    then show ?thesis by blast
  next
    case False
    then have "x \<in> set (z # zs)" using "3.prems" by simp
    then obtain pre post where "join sep (z # zs) = pre @ x @ post"
      using "3.IH" by blast
    then have "join sep (y # z # zs) = (y @ sep @ pre) @ x @ post" by simp
    then show ?thesis by blast
  qed
qed

text \<open>
  C8. For an existing path whose suffix is in neither set of extensions,
  \<open>transcribe_audio\<close> raises a \<open>ValueError\<close> and leaves the trace as it was: nothing
  was converted, probed, decoded or sent for transcription. The text of the error lists
  the audio extensions and the video extensions, so every supported extension occurs
  in it (the order within each list is the one in which the process iterates the set).
\<close>

theorem unsupported_format_rejected:
  assumes "os_path_exists E tr audio_path"
    and "\<not> is_audio_file audio_path"
    and "\<not> is_video_file audio_path"
  shows "transcribe_audio C E tr audio_path language =
           (Inl (Raise ValueError
              (''Formato no soportado. Formatos soportados: Audio: '' @
               join '', '' (set_order E SUPPORTED_AUDIO_EXTENSIONS) @ '', Video: '' @
               join '', '' (set_order E SUPPORTED_VIDEO_EXTENSIONS))), tr)
         \<and> (set (set_order E SUPPORTED_AUDIO_EXTENSIONS) = SUPPORTED_AUDIO_EXTENSIONS
            \<and> set (set_order E SUPPORTED_VIDEO_EXTENSIONS) = SUPPORTED_VIDEO_EXTENSIONS
            \<longrightarrow> (\<forall>ext \<in> SUPPORTED_AUDIO_EXTENSIONS \<union> SUPPORTED_VIDEO_EXTENSIONS.
                   \<exists>pre post. str_exn (projl (fst (transcribe_audio C E tr audio_path language)))
                                = pre @ ext @ post))"
proof -
  let ?A = "join '', '' (set_order E SUPPORTED_AUDIO_EXTENSIONS)"
  let ?V = "join '', '' (set_order E SUPPORTED_VIDEO_EXTENSIONS)"
  let ?msg = "''Formato no soportado. Formatos soportados: Audio: '' @ ?A @ '', Video: '' @ ?V"
  have r: "transcribe_audio C E tr audio_path language = (Inl (Raise ValueError ?msg), tr)"
    using assms by (simp add: transcribe_audio_def unsupported_format_message_def)
  have "\<exists>pre post. ?msg = pre @ ext @ post"
    if o: "set (set_order E SUPPORTED_AUDIO_EXTENSIONS) = SUPPORTED_AUDIO_EXTENSIONS"
          "set (set_order E SUPPORTED_VIDEO_EXTENSIONS) = SUPPORTED_VIDEO_EXTENSIONS"
      and e: "ext \<in> SUPPORTED_AUDIO_EXTENSIONS \<union> SUPPORTED_VIDEO_EXTENSIONS" for ext
  proof (cases "ext \<in> SUPPORTED_AUDIO_EXTENSIONS")
    case True
    then obtain pre post where "?A = pre @ ext @ post"
      using join_names_member [of ext "set_order E SUPPORTED_AUDIO_EXTENSIONS"] o(1) by blast
    then have "?msg = (''Formato no soportado. Formatos soportados: Audio: '' @ pre) @ ext @
                      (post @ '', Video: '' @ ?V)"
      by simp
    then show ?thesis by blast
  next
    case False
    then have "ext \<in> SUPPORTED_VIDEO_EXTENSIONS" using e by simp
    then obtain pre post where "?V = pre @ ext @ post"
      using join_names_member [of ext "set_order E SUPPORTED_VIDEO_EXTENSIONS"] o(2) by blast
    then have "?msg = (''Formato no soportado. Formatos soportados: Audio: '' @ ?A @
                       '', Video: '' @ pre) @ ext @ post"
      by simp
    then show ?thesis by blast
  qed
  then show ?thesis
    unfolding r by simp
qed

theorem unsupported_format_rejected_witness:
  "os_path_exists quiet_env [] ''/data/notas.xyz''
   \<and> \<not> is_audio_file ''/data/notas.xyz'' \<and> \<not> is_video_file ''/data/notas.xyz''
   \<and> set (set_order quiet_env SUPPORTED_AUDIO_EXTENSIONS) = SUPPORTED_AUDIO_EXTENSIONS
   \<and> set (set_order quiet_env SUPPORTED_VIDEO_EXTENSIONS) = SUPPORTED_VIDEO_EXTENSIONS
   \<and> ''.mkv'' \<in> SUPPORTED_AUDIO_EXTENSIONS \<union> SUPPORTED_VIDEO_EXTENSIONS
   \<and> transcribe_audio (default_config ''/app'') quiet_env [] ''/data/notas.xyz'' None =
       (Inl (Raise ValueError
          (''Formato no soportado. Formatos soportados: '' @
           ''Audio: .flac, .mp3, .wav, .ogg, .m4a, .aac, '' @
           ''Video: .mp4, .mov, .avi, .flv, .mkv, .wmv'')), [])"
proof -
  have h1: "os_path_exists quiet_env [] ''/data/notas.xyz''"
    by (simp add: quiet_env_def)
  have s: "lower (Path_suffix ''/data/notas.xyz'') = ''.xyz''"
    by (simp add: Path_suffix_def Path_name_def rfind_def lower_def lower_char_def
          uppercase_def lowercase_def)
  have h2: "\<not> is_audio_file ''/data/notas.xyz''"
    unfolding is_audio_file_def s by (simp add: SUPPORTED_AUDIO_EXTENSIONS_def)
  have h3: "\<not> is_video_file ''/data/notas.xyz''"
    unfolding is_video_file_def s by (simp add: SUPPORTED_VIDEO_EXTENSIONS_def)
  have oa: "set_order quiet_env SUPPORTED_AUDIO_EXTENSIONS =
              [''.flac'', ''.mp3'', ''.wav'', ''.ogg'', ''.m4a'', ''.aac'']"
    by (simp add: quiet_env_def SUPPORTED_AUDIO_EXTENSIONS_def)
  have ov: "set_order quiet_env SUPPORTED_VIDEO_EXTENSIONS =
              [''.mp4'', ''.mov'', ''.avi'', ''.flv'', ''.mkv'', ''.wmv'']"
    by (simp add: quiet_env_def SUPPORTED_VIDEO_EXTENSIONS_def)
  have h4: "set (set_order quiet_env SUPPORTED_AUDIO_EXTENSIONS) = SUPPORTED_AUDIO_EXTENSIONS"
    unfolding oa by (auto simp: SUPPORTED_AUDIO_EXTENSIONS_def)
  have h5: "set (set_order quiet_env SUPPORTED_VIDEO_EXTENSIONS) = SUPPORTED_VIDEO_EXTENSIONS"
    unfolding ov by (auto simp: SUPPORTED_VIDEO_EXTENSIONS_def)
  have h6: "''.mkv'' \<in> SUPPORTED_AUDIO_EXTENSIONS \<union> SUPPORTED_VIDEO_EXTENSIONS"
    by (simp add: SUPPORTED_VIDEO_EXTENSIONS_def)
  have "transcribe_audio (default_config ''/app'') quiet_env [] ''/data/notas.xyz'' None =
       (Inl (Raise ValueError
          (''Formato no soportado. Formatos soportados: '' @
           ''Audio: .flac, .mp3, .wav, .ogg, .m4a, .aac, '' @
           ''Video: .mp4, .mov, .avi, .flv, .mkv, .wmv'')), [])"
    using unsupported_format_rejected [OF h1 h2 h3, of "default_config ''/app''" None]
    unfolding oa ov by simp
  with h1 h2 h3 h4 h5 h6 show ?thesis by blast
qed

text \<open>
  C9, as the claim has it, fails. Whether the segment loop runs is decided by the
  duration that \<open>ffmpeg.probe\<close> reports, and whether the recording is split is decided
  by the length that \<open>pydub\<close> decodes. Here the probe reports 720 seconds, above the
  maximum of ten minutes, and the decoded recording lasts 480000 milliseconds, within
  the window: \<open>split_audio\<close> returns the recording itself and exports nothing, the
  transcription fails, and \<open>transcribe_audio\<close> returns the empty transcript instead of
  raising.
\<close>

theorem unsplit_recording_recovered_counterexample:
  "get_audio_duration probe_longer_env [] ''/data/reunion.mp3'' =
     (Inr 12, [EvProbe ''/data/reunion.mp3''])
   \<and> split_audio (default_config ''/app'') probe_longer_env [EvProbe ''/data/reunion.mp3'']
        ''/data/reunion.mp3'' 10 =
       (Inr [''/data/reunion.mp3''], [EvProbe ''/data/reunion.mp3'', EvDecode ''/data/reunion.mp3''])
   \<and> exported_files [EvProbe ''/data/reunion.mp3'', EvDecode ''/data/reunion.mp3''] = []
   \<and> transcribe_with_whisper (default_config ''/app'') probe_longer_env
        [EvProbe ''/data/reunion.mp3'', EvDecode ''/data/reunion.mp3'']
        ''/data/reunion.mp3'' (Some ''es'') =
       (Inl (Raise OpenAIError
          (''Error en la transcripci'' @ [CHR 0xF3] @ ''n: Connection error'')),
        [EvProbe ''/data/reunion.mp3'', EvDecode ''/data/reunion.mp3'',
         EvOpen ''/data/reunion.mp3'',
         EvTranscribe ''whisper-1'' ''/data/reunion.mp3'' (Some ''es'')])
   \<and> transcribe_audio (default_config ''/app'') probe_longer_env [] ''/data/reunion.mp3''
        (Some ''es'') =
       (Inr [],
        [EvProbe ''/data/reunion.mp3'', EvDecode ''/data/reunion.mp3'',
         EvOpen ''/data/reunion.mp3'',
         EvTranscribe ''whisper-1'' ''/data/reunion.mp3'' (Some ''es'')])"
proof -
  let ?C = "default_config ''/app''"
  let ?p = "''/data/reunion.mp3''"
  have s: "lower (Path_suffix ?p) = ''.mp3''"
    by (simp add: Path_suffix_def Path_name_def rfind_def lower_def lower_char_def
          uppercase_def lowercase_def)
  have a: "is_audio_file ?p"
    unfolding is_audio_file_def s by (simp add: SUPPORTED_AUDIO_EXTENSIONS_def)
  have v: "\<not> is_video_file ?p"
    unfolding is_video_file_def s by (simp add: SUPPORTED_VIDEO_EXTENSIONS_def)
  have x: "os_path_exists probe_longer_env t ?p" for t
    by (simp add: probe_longer_env_def quiet_env_def)
  have d: "get_audio_duration probe_longer_env [] ?p = (Inr 12, [EvProbe ?p])"
    by (simp add: get_audio_duration_def probe_duration_def getitem_def float_div_def
          probe_longer_env_def quiet_env_def)
  have sp: "split_audio ?C probe_longer_env [EvProbe ?p] ?p 10 =
              (Inr [?p], [EvProbe ?p, EvDecode ?p])"
    by (simp add: split_audio_def probe_longer_env_def quiet_env_def)
  have e: "exported_files [EvProbe ?p, EvDecode ?p] = []"
    by (simp add: exported_files_def)
  have w: "transcribe_with_whisper ?C probe_longer_env [EvProbe ?p, EvDecode ?p] ?p
             (Some ''es'') =
       (Inl (Raise OpenAIError
          (''Error en la transcripci'' @ [CHR 0xF3] @ ''n: Connection error'')),
        [EvProbe ?p, EvDecode ?p, EvOpen ?p, EvTranscribe ''whisper-1'' ?p (Some ''es'')])"
    by (simp add: transcribe_with_whisper_def probe_longer_env_def quiet_env_def
          default_config_def)
  have m: "MAX_AUDIO_LENGTH_MINUTES ?C = 10"
    by (simp add: default_config_def)
  have t: "transcribe_audio ?C probe_longer_env [] ?p (Some ''es'') =
       (Inr [], [EvProbe ?p, EvDecode ?p, EvOpen ?p,
                 EvTranscribe ''whisper-1'' ?p (Some ''es'')])"
    using x a v d sp w by (simp add: transcribe_audio_def transcribe_segments_def m)
  from d sp e w t show ?thesis by blast
qed

text \<open>
  C9, as the code has it. Let the file exist, be an audio or a video file, be converted
  when it is a video, and let \<open>get_audio_duration\<close> report a duration.
  \<^item> When that duration does not exceed the configured maximum, \<open>transcribe_audio\<close> is
    the one call of \<open>transcribe_with_whisper\<close> on the recording: when the call raises,
    \<open>transcribe_audio\<close> raises the same exception, a \<open>FileNotFoundError\<close> or an
    \<open>OpenAIError\<close>, where the segment loop on that one recording would have returned
    the empty transcript.
  \<^item> When that duration exceeds the maximum, whatever list \<open>split_audio\<close> returns goes
    through the segment loop, and \<open>transcribe_audio\<close> returns its transcript. This
    holds also when the decoded recording is within the window and \<open>split_audio\<close>
    returns it unsplit: a failure of its transcription then gives the empty transcript.
\<close>

theorem whisper_error_recovery_by_probed_duration:
  assumes "os_path_exists E tr audio_path"
    and "is_audio_file audio_path \<or> is_video_file audio_path"
    and "(if is_video_file audio_path then convert_to_audio C E tr audio_path None
          else (Inr audio_path, tr)) = (Inr audio, tr1)"
    and "get_audio_duration E tr1 audio = (Inr duration, tr2)"
  shows
   "(duration \<le> real_of_int (MAX_AUDIO_LENGTH_MINUTES C) \<longrightarrow>
        transcribe_audio C E tr audio_path language =
          transcribe_with_whisper C E tr2 audio language
      \<and> (\<forall>e tr3. transcribe_with_whisper C E tr2 audio language = (Inl e, tr3) \<longrightarrow>
             transcribe_audio C E tr audio_path language = (Inl e, tr3)
           \<and> (class_of e = FileNotFoundError \<or> class_of e = OpenAIError)
           \<and> transcribe_segments C E tr2 [audio] language = ([], tr3)))
    \<and> (real_of_int (MAX_AUDIO_LENGTH_MINUTES C) < duration \<longrightarrow>
        (\<forall>segments tr3.
            split_audio C E tr2 audio (MAX_AUDIO_LENGTH_MINUTES C) = (Inr segments, tr3) \<longrightarrow>
            transcribe_audio C E tr audio_path language =
              (Inr (fst (transcribe_segments C E tr3 segments language)),
               snd (transcribe_segments C E tr3 segments language)))
      \<and> (\<forall>n e tr4.
            os_path_exists E tr2 audio
          \<and> AudioSegment_from_file E tr2 audio = Inr n
          \<and> int n \<le> MAX_AUDIO_LENGTH_MINUTES C * 60 * 1000
          \<and> transcribe_with_whisper C E (tr2 @ [EvDecode audio]) audio language = (Inl e, tr4)
          \<longrightarrow> split_audio C E tr2 audio (MAX_AUDIO_LENGTH_MINUTES C) =
                (Inr [audio], tr2 @ [EvDecode audio])
            \<and> transcribe_audio C E tr audio_path language = (Inr [], tr4)))"
proof -
  have body: "transcribe_audio C E tr audio_path language =
     (if duration > real_of_int (MAX_AUDIO_LENGTH_MINUTES C)
      then (case split_audio C E tr2 audio (MAX_AUDIO_LENGTH_MINUTES C) of
              (Inl e, tr3) \<Rightarrow> (Inl e, tr3)
            | (Inr segments, tr3) \<Rightarrow>
                (case transcribe_segments C E tr3 segments language of
                   (transcript, tr4) \<Rightarrow> (Inr transcript, tr4)))
      else transcribe_with_whisper C E tr2 audio language)"
  proof (cases "is_video_file audio_path")
    case True
    then have "convert_to_audio C E tr audio_path None = (Inr audio, tr1)"
      using assms(3) by simp
    then show ?thesis
      using True assms(1,4) by (simp add: transcribe_audio_def)
  next
    case False
    then have "audio = audio_path" "tr1 = tr"
      using assms(3) by simp_all
    then show ?thesis
      using False assms(1,2,4) by (simp add: transcribe_audio_def)
  qed
  have direct: "transcribe_audio C E tr audio_path language =
                  transcribe_with_whisper C E tr2 audio language"
    if "duration \<le> real_of_int (MAX_AUDIO_LENGTH_MINUTES C)"
    using that body by simp
  have raised: "transcribe_audio C E tr audio_path language = (Inl e, tr3)
           \<and> (class_of e = FileNotFoundError \<or> class_of e = OpenAIError)
           \<and> transcribe_segments C E tr2 [audio] language = ([], tr3)"
    if le: "duration \<le> real_of_int (MAX_AUDIO_LENGTH_MINUTES C)"
      and w: "transcribe_with_whisper C E tr2 audio language = (Inl e, tr3)" for e tr3
  proof -
    have 1: "transcribe_audio C E tr audio_path language = (Inl e, tr3)"
      using direct [OF le] w by simp
    have 2: "class_of e = FileNotFoundError \<or> class_of e = OpenAIError"
      using w
      by (auto simp: transcribe_with_whisper_def Let_def
               split: option.splits sum.splits if_splits)
    have 3: "transcribe_segments C E tr2 [audio] language = ([], tr3)"
      using w by (simp add: transcribe_segments_def)
    from 1 2 3 show ?thesis by blast
  qed
  have looped: "transcribe_audio C E tr audio_path language =
              (Inr (fst (transcribe_segments C E tr3 segments language)),
               snd (transcribe_segments C E tr3 segments language))"
    if gt: "real_of_int (MAX_AUDIO_LENGTH_MINUTES C) < duration"
      and sp: "split_audio C E tr2 audio (MAX_AUDIO_LENGTH_MINUTES C) = (Inr segments, tr3)"
    for segments tr3
    using gt sp body by (simp add: case_prod_beta)
  have unsplit: "split_audio C E tr2 audio (MAX_AUDIO_LENGTH_MINUTES C) =
                (Inr [audio], tr2 @ [EvDecode audio])
            \<and> transcribe_audio C E tr audio_path language = (Inr [], tr4)"
    if gt: "real_of_int (MAX_AUDIO_LENGTH_MINUTES C) < duration"
      and x: "os_path_exists E tr2 audio"
      and n: "AudioSegment_from_file E tr2 audio = Inr n"
      and le: "int n \<le> MAX_AUDIO_LENGTH_MINUTES C * 60 * 1000"
      and w: "transcribe_with_whisper C E (tr2 @ [EvDecode audio]) audio language = (Inl e, tr4)"
    for n e tr4
  proof -
    have sp: "split_audio C E tr2 audio (MAX_AUDIO_LENGTH_MINUTES C) =
                (Inr [audio], tr2 @ [EvDecode audio])"
      using x n le by (simp add: split_audio_def Let_def)
    have "transcribe_segments C E (tr2 @ [EvDecode audio]) [audio] language = ([], tr4)"
      using w by (simp add: transcribe_segments_def)
    then have "transcribe_audio C E tr audio_path language = (Inr [], tr4)"
      using looped [OF gt sp] by simp
    with sp show ?thesis by blast
  qed
  from direct raised looped unsplit show ?thesis by blast
qed

text \<open>
  A recording of five minutes with the default maximum of ten, and a transcription
  service that is down: the run ends with the \<open>OpenAIError\<close>. A recording probed as
  twelve minutes and decoded as eight, with the service down: the run returns the empty
  transcript.
\<close>

theorem whisper_error_recovery_by_probed_duration_witness:
  "os_path_exists whisper_down_env [] ''/data/reunion.mp3''
   \<and> is_audio_file ''/data/reunion.mp3''
   \<and> get_audio_duration whisper_down_env [] ''/data/reunion.mp3'' =
       (Inr 5, [EvProbe ''/data/reunion.mp3''])
   \<and> (5::real) \<le> real_of_int (MAX_AUDIO_LENGTH_MINUTES (default_config ''/app''))
   \<and> transcribe_audio (default_config ''/app'') whisper_down_env [] ''/data/reunion.mp3''
        (Some ''es'') =
       (Inl (Raise OpenAIError
          (''Error en la transcripci'' @ [CHR 0xF3] @ ''n: Connection error'')),
        [EvProbe ''/data/reunion.mp3'', EvOpen ''/data/reunion.mp3'',
         EvTranscribe ''whisper-1'' ''/data/reunion.mp3'' (Some ''es'')])
   \<and> os_path_exists probe_longer_env [] ''/data/reunion.mp3''
   \<and> get_audio_duration probe_longer_env [] ''/data/reunion.mp3'' =
       (Inr 12, [EvProbe ''/data/reunion.mp3''])
   \<and> real_of_int (MAX_AUDIO_LENGTH_MINUTES (default_config ''/app'')) < (12::real)
   \<and> os_path_exists probe_longer_env [EvProbe ''/data/reunion.mp3''] ''/data/reunion.mp3''
   \<and> AudioSegment_from_file probe_longer_env [EvProbe ''/data/reunion.mp3'']
        ''/data/reunion.mp3'' = Inr 480000
   \<and> int 480000 \<le> MAX_AUDIO_LENGTH_MINUTES (default_config ''/app'') * 60 * 1000
   \<and> split_audio (default_config ''/app'') probe_longer_env [EvProbe ''/data/reunion.mp3'']
        ''/data/reunion.mp3'' (MAX_AUDIO_LENGTH_MINUTES (default_config ''/app'')) =
       (Inr [''/data/reunion.mp3''], [EvProbe ''/data/reunion.mp3''] @ [EvDecode ''/data/reunion.mp3''])
   \<and> transcribe_audio (default_config ''/app'') probe_longer_env [] ''/data/reunion.mp3''
        (Some ''es'') =
       (Inr [],
        [EvProbe ''/data/reunion.mp3'', EvDecode ''/data/reunion.mp3'',
         EvOpen ''/data/reunion.mp3'',
         EvTranscribe ''whisper-1'' ''/data/reunion.mp3'' (Some ''es'')])"
proof -
  let ?C = "default_config ''/app''"
  let ?p = "''/data/reunion.mp3''"
  let ?err = "Raise OpenAIError
                (''Error en la transcripci'' @ [CHR 0xF3] @ ''n: Connection error'')"
  have s: "lower (Path_suffix ?p) = ''.mp3''"
    by (simp add: Path_suffix_def Path_name_def rfind_def lower_def lower_char_def
          uppercase_def lowercase_def)
  have a: "is_audio_file ?p"
    unfolding is_audio_file_def s by (simp add: SUPPORTED_AUDIO_EXTENSIONS_def)
  have v: "\<not> is_video_file ?p"
    unfolding is_video_file_def s by (simp add: SUPPORTED_VIDEO_EXTENSIONS_def)
  have h2: "is_audio_file ?p \<or> is_video_file ?p" using a by simp
  have m: "MAX_AUDIO_LENGTH_MINUTES ?C = 10"
    by (simp add: default_config_def)

  have h1: "os_path_exists whisper_down_env [] ?p"
    by (simp add: whisper_down_env_def quiet_env_def)
  have h3: "(if is_video_file ?p then convert_to_audio ?C whisper_down_env [] ?p None
             else (Inr ?p, [])) = (Inr ?p, [])"
    using v by simp
  have h4: "get_audio_duration whisper_down_env [] ?p = (Inr 5, [EvProbe ?p])"
    by (simp add: get_audio_duration_def probe_duration_def getitem_def float_div_def
          whisper_down_env_def quiet_env_def)
  have h5: "(5::real) \<le> real_of_int (MAX_AUDIO_LENGTH_MINUTES ?C)"
    by (simp add: m)
  have h6: "transcribe_with_whisper ?C whisper_down_env [EvProbe ?p] ?p (Some ''es'') =
       (Inl ?err, [EvProbe ?p, EvOpen ?p, EvTranscribe ''whisper-1'' ?p (Some ''es'')])"
    by (simp add: transcribe_with_whisper_def whisper_down_env_def quiet_env_def
          default_config_def)
  have r1: "transcribe_audio ?C whisper_down_env [] ?p (Some ''es'') =
       (Inl ?err, [EvProbe ?p, EvOpen ?p, EvTranscribe ''whisper-1'' ?p (Some ''es'')])"
    using whisper_error_recovery_by_probed_duration [OF h1 h2 h3 h4, of "Some ''es''"] h5 h6
    by blast

  have g1: "os_path_exists probe_longer_env t ?p" for t
    by (simp add: probe_longer_env_def quiet_env_def)
  have g3: "(if is_video_file ?p then convert_to_audio ?C probe_longer_env [] ?p None
             else (Inr ?p, [])) = (Inr ?p, [])"
    using v by simp
  have g4: "get_audio_duration probe_longer_env [] ?p = (Inr 12, [EvProbe ?p])"
    by (simp add: get_audio_duration_def probe_duration_def getitem_def float_div_def
          probe_longer_env_def quiet_env_def)
  have g5: "real_of_int (MAX_AUDIO_LENGTH_MINUTES ?C) < (12::real)"
    by (simp add: m)
  have g6: "AudioSegment_from_file probe_longer_env [EvProbe ?p] ?p = Inr 480000"
    by (simp add: probe_longer_env_def quiet_env_def)
  have g7: "int 480000 \<le> MAX_AUDIO_LENGTH_MINUTES ?C * 60 * 1000"
    by (simp add: m)
  have g8: "transcribe_with_whisper ?C probe_longer_env ([EvProbe ?p] @ [EvDecode ?p]) ?p
              (Some ''es'') =
       (Inl ?err, [EvProbe ?p, EvDecode ?p, EvOpen ?p,
                   EvTranscribe ''whisper-1'' ?p (Some ''es'')])"
    by (simp add: transcribe_with_whisper_def probe_longer_env_def quiet_env_def
          default_config_def)
  have r2: "split_audio ?C probe_longer_env [EvProbe ?p] ?p (MAX_AUDIO_LENGTH_MINUTES ?C) =
              (Inr [?p], [EvProbe ?p] @ [EvDecode ?p])
          \<and> transcribe_audio ?C probe_longer_env [] ?p (Some ''es'') =
              (Inr [], [EvProbe ?p, EvDecode ?p, EvOpen ?p,
                        EvTranscribe ''whisper-1'' ?p (Some ''es'')])"
    using whisper_error_recovery_by_probed_duration
            [OF g1 [of "[]"] h2 g3 g4, of "Some ''es''"] g5 g1 [of "[EvProbe ?p]"] g6 g7 g8
    by blast
  from h1 a h4 h5 r1 g1 [of "[]"] g4 g5 g1 [of "[EvProbe ?p]"] g6 g7 r2
  show ?thesis by blast
qed

end
